theory Spec2Isabelle
  imports Complex_Main
begin

section \<open>Data model\<close>

text \<open>
  The geometry kernel of the repository works on two numpy arrays: a vertex array of shape
  \<open>(N, 3)\<close> holding floating-point coordinates and a face array of shape \<open>(M, 3)\<close> holding
  integer vertex indices. A vertex array is modelled as a list of triples of reals (one triple
  per row), a face array as a list of triples of integers. Coordinates are idealised as real
  numbers: rounding of the floating-point operations is not part of the model. Face indices are
  integers, since numpy accepts negative indices (they count from the end of the vertex array).
\<close>

type_synonym vec3 = "real \<times> real \<times> real"
type_synonym face = "int \<times> int \<times> int"

datatype py_error = IndexError | KeyError | ValueError string

text \<open>The text of an exception, as an f-string prints it.\<close>

fun error_text :: "py_error \<Rightarrow> string" where
  "error_text IndexError = ''index out of bounds''"
| "error_text KeyError = ''key not found''"
| "error_text (ValueError msg) = msg"

definition vsub :: "vec3 \<Rightarrow> vec3 \<Rightarrow> vec3" where
  "vsub a b = (case a of (ax, ay, az) \<Rightarrow> case b of (bx, by, bz) \<Rightarrow> (ax - bx, ay - by, az - bz))"

definition vadd :: "vec3 \<Rightarrow> vec3 \<Rightarrow> vec3" where
  "vadd a b = (case a of (ax, ay, az) \<Rightarrow> case b of (bx, by, bz) \<Rightarrow> (ax + bx, ay + by, az + bz))"

definition vhalf :: "vec3 \<Rightarrow> vec3" where
  "vhalf a = (case a of (ax, ay, az) \<Rightarrow> (ax / 2, ay / 2, az / 2))"

text \<open>\<open>np.cross\<close>, \<open>np.dot\<close> and \<open>np.linalg.norm\<close> on vectors of length three.\<close>

definition cross :: "vec3 \<Rightarrow> vec3 \<Rightarrow> vec3" where
  "cross a b = (case a of (ax, ay, az) \<Rightarrow> case b of (bx, by, bz) \<Rightarrow>
     (ay * bz - az * by, az * bx - ax * bz, ax * by - ay * bx))"

definition dot :: "vec3 \<Rightarrow> vec3 \<Rightarrow> real" where
  "dot a b = (case a of (ax, ay, az) \<Rightarrow> case b of (bx, by, bz) \<Rightarrow> ax * bx + ay * by + az * bz)"

definition vnorm :: "vec3 \<Rightarrow> real" where
  "vnorm a = (case a of (ax, ay, az) \<Rightarrow> sqrt (ax * ax + ay * ay + az * az))"

text \<open>
  Reading one row of the vertex array by an integer index, as numpy does inside
  \<open>vertices[face[:3]]\<close>: an index in \<open>[0, N)\<close> reads that row, an index in \<open>[-N, 0)\<close> reads
  row \<open>N + i\<close>, and any other index raises IndexError.
\<close>

definition row_at :: "vec3 list \<Rightarrow> int \<Rightarrow> py_error + vec3" where
  "row_at vertices i =
     (let n = int (length vertices); j = (if i < 0 then n + i else i)
      in if 0 \<le> j \<and> j < n then Inr (vertices ! nat j) else Inl IndexError)"

text \<open>\<open>v0, v1, v2 = vertices[face[:3]]\<close>\<close>

definition gather :: "vec3 list \<Rightarrow> face \<Rightarrow> py_error + (vec3 \<times> vec3 \<times> vec3)" where
  "gather vertices f = (case f of (a, b, c) \<Rightarrow>
     (case row_at vertices a of Inl e \<Rightarrow> Inl e | Inr v0 \<Rightarrow>
     (case row_at vertices b of Inl e \<Rightarrow> Inl e | Inr v1 \<Rightarrow>
     (case row_at vertices c of Inl e \<Rightarrow> Inl e | Inr v2 \<Rightarrow> Inr (v0, v1, v2)))))"

section \<open>Geometric estimators (mesh\_utils.py)\<close>

text \<open>
  \<open>MeshProcessor._estimate_surface_area\<close>. The \<open>for\<close> loop runs inside one \<open>try\<close> block:
  the first face whose lookup raises ends the loop and the handler returns \<open>0.0\<close>.
  The test \<open>len(face) >= 3\<close> is always true for a face array of shape \<open>(M, 3)\<close>.
\<close>

definition triangle_area :: "vec3 \<times> vec3 \<times> vec3 \<Rightarrow> real" where
  "triangle_area t = (case t of (v0, v1, v2) \<Rightarrow> vnorm (cross (vsub v1 v0) (vsub v2 v0)) / 2)"

fun surface_area_loop :: "vec3 list \<Rightarrow> face list \<Rightarrow> real \<Rightarrow> py_error + real" where
  "surface_area_loop vertices [] total_area = Inr total_area"
| "surface_area_loop vertices (f # faces) total_area =
     (case gather vertices f of
        Inl e \<Rightarrow> Inl e
      | Inr t \<Rightarrow> surface_area_loop vertices faces (total_area + triangle_area t))"

definition estimate_surface_area :: "vec3 list \<Rightarrow> face list \<Rightarrow> real" where
  "estimate_surface_area vertices faces =
     (case surface_area_loop vertices faces 0 of Inl e \<Rightarrow> 0 | Inr total_area \<Rightarrow> total_area)"

text \<open>
  \<open>MeshProcessor._estimate_volume\<close>: signed tetrahedron volumes are summed and the absolute
  value is taken of the total.
\<close>

definition triple_product :: "vec3 \<times> vec3 \<times> vec3 \<Rightarrow> real" where
  "triple_product t = (case t of (v0, v1, v2) \<Rightarrow> dot v0 (cross v1 v2))"

fun volume_loop :: "vec3 list \<Rightarrow> face list \<Rightarrow> real \<Rightarrow> py_error + real" where
  "volume_loop vertices [] volume = Inr volume"
| "volume_loop vertices (f # faces) volume =
     (case gather vertices f of
        Inl e \<Rightarrow> Inl e
      | Inr t \<Rightarrow> volume_loop vertices faces (volume + triple_product t / 6))"

definition estimate_volume :: "vec3 list \<Rightarrow> face list \<Rightarrow> real" where
  "estimate_volume vertices faces =
     (case volume_loop vertices faces 0 of Inl e \<Rightarrow> 0 | Inr volume \<Rightarrow> \<bar>volume\<bar>)"

text \<open>
  \<open>BaseText3DModel._estimate_volume\<close> (base\_model.py), the function behind the metadata
  key \<open>volume_estimate\<close>: here \<open>np.abs\<close> is applied to every term of the sum.
\<close>

fun base_volume_loop :: "vec3 list \<Rightarrow> face list \<Rightarrow> real \<Rightarrow> py_error + real" where
  "base_volume_loop vertices [] volume = Inr volume"
| "base_volume_loop vertices (f # faces) volume =
     (case gather vertices f of
        Inl e \<Rightarrow> Inl e
      | Inr t \<Rightarrow> base_volume_loop vertices faces (volume + \<bar>triple_product t\<bar> / 6))"

definition base_estimate_volume :: "vec3 list \<Rightarrow> face list \<Rightarrow> real" where
  "base_estimate_volume vertices faces =
     (case base_volume_loop vertices faces 0 of Inl e \<Rightarrow> 0 | Inr volume \<Rightarrow> volume)"

text \<open>
  \<open>MeshProcessor._calculate_bounding_box\<close>. The result is a Python dict; the key
  \<open>center\<close> is present only in the dict built for a non-empty array, hence an option.
  \<open>np.min(vertices, axis=0)\<close> reduces every column with \<open>min\<close>.
\<close>

record bounding_box =
  box_min :: vec3
  box_max :: vec3
  box_size :: vec3
  box_center :: "vec3 option"

text \<open>\<open>np.min\<close> and \<open>np.max\<close> of one column; both raise ValueError on an empty column.\<close>

fun amin :: "real list \<Rightarrow> py_error + real" where
  "amin [] = Inl (ValueError ''zero-size array to reduction operation minimum which has no identity'')"
| "amin (x # xs) = Inr (fold min xs x)"

fun amax :: "real list \<Rightarrow> py_error + real" where
  "amax [] = Inl (ValueError ''zero-size array to reduction operation maximum which has no identity'')"
| "amax (x # xs) = Inr (fold max xs x)"

definition column_min :: "vec3 list \<Rightarrow> py_error + vec3" where
  "column_min vertices =
     (case amin (map fst vertices) of Inl e \<Rightarrow> Inl e | Inr x \<Rightarrow>
     (case amin (map (fst \<circ> snd) vertices) of Inl e \<Rightarrow> Inl e | Inr y \<Rightarrow>
     (case amin (map (snd \<circ> snd) vertices) of Inl e \<Rightarrow> Inl e | Inr z \<Rightarrow> Inr (x, y, z))))"

definition column_max :: "vec3 list \<Rightarrow> py_error + vec3" where
  "column_max vertices =
     (case amax (map fst vertices) of Inl e \<Rightarrow> Inl e | Inr x \<Rightarrow>
     (case amax (map (fst \<circ> snd) vertices) of Inl e \<Rightarrow> Inl e | Inr y \<Rightarrow>
     (case amax (map (snd \<circ> snd) vertices) of Inl e \<Rightarrow> Inl e | Inr z \<Rightarrow> Inr (x, y, z))))"

definition calculate_bounding_box :: "vec3 list \<Rightarrow> py_error + bounding_box" where
  "calculate_bounding_box vertices =
     (if length vertices = 0
      then Inr \<lparr>box_min = (0, 0, 0), box_max = (0, 0, 0), box_size = (0, 0, 0), box_center = None\<rparr>
      else (case column_min vertices of Inl e \<Rightarrow> Inl e | Inr min_coords \<Rightarrow>
           (case column_max vertices of Inl e \<Rightarrow> Inl e | Inr max_coords \<Rightarrow>
              Inr \<lparr>box_min = min_coords, box_max = max_coords,
                   box_size = vsub max_coords min_coords,
                   box_center = Some (vhalf (vadd min_coords max_coords))\<rparr>)))"

section \<open>Validation (mesh\_utils.py)\<close>

text \<open>
  The topology analysis of \<open>validate_mesh\<close> is done by the external library trimesh, which is
  not part of the repository. Its possible behaviours at lines 130 to 132 of mesh\_utils.py are
  a parameter of the model: the constructor or \<open>is_manifold\<close> raises (nothing is stored),
  \<open>is_watertight\<close> raises after \<open>is_manifold\<close> has been stored, or both values are returned.
\<close>

datatype trimesh_outcome =
    Trimesh_raises string
  | Watertight_raises bool string
  | Topology bool bool

record mesh_stats =
  vertex_count :: nat
  face_count :: nat
  bounding_box :: bounding_box
  surface_area :: real
  volume :: real
  is_manifold :: "bool option"
  is_watertight :: "bool option"

text \<open>The report dict; \<open>stats = None\<close> stands for the initial empty dict \<open>{}\<close>.\<close>

record validation =
  is_valid :: bool
  errors :: "string list"
  warnings :: "string list"
  stats :: "mesh_stats option"

definition add_error :: "string \<Rightarrow> validation \<Rightarrow> validation" where
  "add_error msg v = v\<lparr>errors := errors v @ [msg], is_valid := False\<rparr>"

definition add_warning :: "string \<Rightarrow> validation \<Rightarrow> validation" where
  "add_warning msg v = v\<lparr>warnings := warnings v @ [msg]\<rparr>"

text \<open>
  The arrays of the model have rank 2 and three columns by their type, so the two shape tests
  of lines 93 and 97 are tests on these constants.
\<close>

definition ndim :: "'a list \<Rightarrow> nat" where
  "ndim a = 2"

definition shape1 :: "'a list \<Rightarrow> nat" where
  "shape1 a = 3"

text \<open>\<open>np.any(faces > k)\<close> and \<open>np.any(faces < k)\<close>\<close>

definition any_greater :: "face list \<Rightarrow> int \<Rightarrow> bool" where
  "any_greater faces k = list_ex (\<lambda>(a, b, c). a > k \<or> b > k \<or> c > k) faces"

definition any_less :: "face list \<Rightarrow> int \<Rightarrow> bool" where
  "any_less faces k = list_ex (\<lambda>(a, b, c). a < k \<or> b < k \<or> c < k) faces"

text \<open>Lines 92 to 117: the structural checks, each appending its error.\<close>

definition structural_checks :: "vec3 list \<Rightarrow> face list \<Rightarrow> validation \<Rightarrow> validation" where
  "structural_checks vertices faces v0 =
     (let v1 = (if ndim vertices \<noteq> 2 \<or> shape1 vertices \<noteq> 3
                then add_error ''Invalid vertex shape'' v0 else v0);
          v2 = (if ndim faces \<noteq> 2 \<or> shape1 faces \<noteq> 3
                then add_error ''Invalid face shape'' v1 else v1);
          v3 = (if length vertices = 0 then add_error ''No vertices found'' v2 else v2);
          v4 = (if length faces = 0 then add_error ''No faces found'' v3 else v3);
          max_vertex_index = int (length vertices) - 1;
          v5 = (if any_greater faces max_vertex_index
                then add_error ''Face indices exceed vertex count'' v4 else v4);
          v6 = (if any_less faces 0 then add_error ''Negative face indices found'' v5 else v5)
      in v6)"

text \<open>Lines 128 to 141: the inner \<open>try\<close> around trimesh.\<close>

definition advanced_validation :: "trimesh_outcome \<Rightarrow> validation \<Rightarrow> mesh_stats \<Rightarrow> validation" where
  "advanced_validation tm v st =
     (case tm of
        Trimesh_raises e \<Rightarrow>
          add_warning (''Advanced validation failed: '' @ e) (v\<lparr>stats := Some st\<rparr>)
      | Watertight_raises m e \<Rightarrow>
          add_warning (''Advanced validation failed: '' @ e)
            (v\<lparr>stats := Some (st\<lparr>is_manifold := Some m\<rparr>)\<rparr>)
      | Topology m w \<Rightarrow>
          (let v1 = v\<lparr>stats := Some (st\<lparr>is_manifold := Some m, is_watertight := Some w\<rparr>)\<rparr>;
               v2 = (if \<not> m then add_warning ''Mesh is not manifold'' v1 else v1);
               v3 = (if \<not> w then add_warning ''Mesh is not watertight'' v2 else v2)
           in v3))"

text \<open>
  \<open>MeshProcessor.validate_mesh\<close>. The only call of lines 92 to 126 that can raise is
  \<open>_calculate_bounding_box\<close>; the outer handler then appends \<open>Validation error\<close> and the
  stats stay the empty dict.
\<close>

definition validate_mesh :: "(vec3 list \<Rightarrow> face list \<Rightarrow> trimesh_outcome) \<Rightarrow> vec3 list \<Rightarrow> face list \<Rightarrow> validation" where
  "validate_mesh trimesh vertices faces =
     (let v0 = \<lparr>is_valid = True, errors = [], warnings = [], stats = None\<rparr>;
          v6 = structural_checks vertices faces v0
      in case calculate_bounding_box vertices of
           Inl e \<Rightarrow> add_error (''Validation error: '' @ error_text e) v6
         | Inr bb \<Rightarrow>
             advanced_validation (trimesh vertices faces) v6
               \<lparr>vertex_count = length vertices, face_count = length faces,
                bounding_box = bb,
                surface_area = estimate_surface_area vertices faces,
                volume = estimate_volume vertices faces,
                is_manifold = None, is_watertight = None\<rparr>)"

section \<open>Mesh repair (mesh\_utils.py)\<close>

text \<open>
  \<open>np.allclose(vertex, unique_vertex, atol=tolerance)\<close>: numpy compares every component with
  \<open>|a - b| <= atol + rtol * |b|\<close>, and the call leaves \<open>rtol\<close> at its default \<open>1e-5\<close>.
\<close>

definition rtol :: real where
  "rtol = 1 / 100000"

definition isclose :: "real \<Rightarrow> real \<Rightarrow> real \<Rightarrow> bool" where
  "isclose a b atol = (\<bar>a - b\<bar> \<le> atol + rtol * \<bar>b\<bar>)"

definition allclose :: "vec3 \<Rightarrow> vec3 \<Rightarrow> real \<Rightarrow> bool" where
  "allclose a b atol = (case a of (ax, ay, az) \<Rightarrow> case b of (bx, by, bz) \<Rightarrow>
     isclose ax bx atol \<and> isclose ay by atol \<and> isclose az bz atol)"

text \<open>
  The inner loop of \<open>_remove_duplicate_vertices\<close> (lines 253 to 257): the index of the first
  kept vertex that the vertex is close to, if there is one.
\<close>

fun find_close :: "real \<Rightarrow> vec3 \<Rightarrow> vec3 list \<Rightarrow> nat \<Rightarrow> nat option" where
  "find_close tolerance vertex [] j = None"
| "find_close tolerance vertex (unique_vertex # rest) j =
     (if allclose vertex unique_vertex tolerance then Some j
      else find_close tolerance vertex rest (Suc j))"

text \<open>
  The outer loop (lines 251 to 261), with its state: the position \<open>i\<close> of \<open>enumerate\<close>, the
  list \<open>unique_vertices\<close> and the dict \<open>vertex_mapping\<close>.
\<close>

fun weld_loop ::
  "real \<Rightarrow> vec3 list \<Rightarrow> nat \<Rightarrow> vec3 list \<Rightarrow> (int \<rightharpoonup> nat) \<Rightarrow> vec3 list \<times> (int \<rightharpoonup> nat)" where
  "weld_loop tolerance [] i unique_vertices vertex_mapping = (unique_vertices, vertex_mapping)"
| "weld_loop tolerance (vertex # rest) i unique_vertices vertex_mapping =
     (case find_close tolerance vertex unique_vertices 0 of
        Some j \<Rightarrow> weld_loop tolerance rest (Suc i) unique_vertices (vertex_mapping(int i \<mapsto> j))
      | None \<Rightarrow>
          weld_loop tolerance rest (Suc i) (unique_vertices @ [vertex])
            (vertex_mapping(int i \<mapsto> length unique_vertices)))"

text \<open>\<open>vertex_mapping[vertex_idx]\<close>: a key that is not in the dict raises KeyError.\<close>

definition lookup :: "(int \<rightharpoonup> nat) \<Rightarrow> int \<Rightarrow> py_error + int" where
  "lookup vertex_mapping k = (case vertex_mapping k of None \<Rightarrow> Inl KeyError | Some j \<Rightarrow> Inr (int j))"

definition remap_face :: "(int \<rightharpoonup> nat) \<Rightarrow> face \<Rightarrow> py_error + face" where
  "remap_face vertex_mapping f = (case f of (a, b, c) \<Rightarrow>
     (case lookup vertex_mapping a of Inl e \<Rightarrow> Inl e | Inr a' \<Rightarrow>
     (case lookup vertex_mapping b of Inl e \<Rightarrow> Inl e | Inr b' \<Rightarrow>
     (case lookup vertex_mapping c of Inl e \<Rightarrow> Inl e | Inr c' \<Rightarrow> Inr (a', b', c')))))"

fun remap_faces :: "(int \<rightharpoonup> nat) \<Rightarrow> face list \<Rightarrow> py_error + face list" where
  "remap_faces vertex_mapping [] = Inr []"
| "remap_faces vertex_mapping (f # faces) =
     (case remap_face vertex_mapping f of
        Inl e \<Rightarrow> Inl e
      | Inr new_face \<Rightarrow>
          (case remap_faces vertex_mapping faces of
             Inl e \<Rightarrow> Inl e
           | Inr new_faces \<Rightarrow> Inr (new_face # new_faces)))"

text \<open>
  \<open>MeshProcessor._remove_duplicate_vertices\<close>: any exception makes the handler return the
  arrays it was given.
\<close>

definition remove_duplicate_vertices ::
  "vec3 list \<Rightarrow> face list \<Rightarrow> real \<Rightarrow> vec3 list \<times> face list" where
  "remove_duplicate_vertices vertices faces tolerance =
     (case weld_loop tolerance vertices 0 [] Map.empty of
        (unique_vertices, vertex_mapping) \<Rightarrow>
          (case remap_faces vertex_mapping faces of
             Inl e \<Rightarrow> (vertices, faces)
           | Inr new_faces \<Rightarrow> (unique_vertices, new_faces)))"

definition default_tolerance :: real where
  "default_tolerance = 1 / 1000000"

text \<open>
  \<open>MeshProcessor._remove_degenerate_faces\<close>. \<open>len(set(face)) == 3\<close> holds when the three
  indices are different integers. The variable \<open>area\<close> of the source is the norm of the cross
  product, without the division by two.
\<close>

definition distinct_indices :: "face \<Rightarrow> bool" where
  "distinct_indices f = (case f of (a, b, c) \<Rightarrow> length (remdups [a, b, c]) = 3)"

definition area_epsilon :: real where
  "area_epsilon = 1 / 10 ^ 10"

fun degenerate_loop :: "vec3 list \<Rightarrow> face list \<Rightarrow> face list \<Rightarrow> face list" where
  "degenerate_loop vertices [] valid_faces = valid_faces"
| "degenerate_loop vertices (f # faces) valid_faces =
     (if distinct_indices f
      then (case gather vertices f of
              Inl e \<Rightarrow> degenerate_loop vertices faces valid_faces
            | Inr (v0, v1, v2) \<Rightarrow>
                (let edge1 = vsub v1 v0;
                     edge2 = vsub v2 v0;
                     area = vnorm (cross edge1 edge2)
                 in if area > area_epsilon
                    then degenerate_loop vertices faces (valid_faces @ [f])
                    else degenerate_loop vertices faces valid_faces))
      else degenerate_loop vertices faces valid_faces)"

definition remove_degenerate_faces :: "vec3 list \<Rightarrow> face list \<Rightarrow> face list" where
  "remove_degenerate_faces vertices faces =
     (let valid_faces = degenerate_loop vertices faces []
      in if valid_faces \<noteq> [] then valid_faces else faces)"

section \<open>Shape generation (base\_model.py)\<close>

text \<open>
  The four generators of \<open>DemoText3DModel\<close>. The final casts to \<open>float32\<close> and \<open>uint32\<close>
  do not change the number of rows nor the indices (all are non-negative and small).
\<close>

definition create_cube :: "real \<Rightarrow> vec3 list \<times> face list" where
  "create_cube size' =
     (let s = size' / 2
      in ([(- s, - s, - s), (s, - s, - s), (s, s, - s), (- s, s, - s),
           (- s, - s, s), (s, - s, s), (s, s, s), (- s, s, s)],
          [(0, 1, 2), (0, 2, 3),
           (4, 7, 6), (4, 6, 5),
           (0, 4, 5), (0, 5, 1),
           (2, 6, 7), (2, 7, 3),
           (0, 3, 7), (0, 7, 4),
           (1, 5, 6), (1, 6, 2)]))"

definition lat_segments :: nat where
  "lat_segments = 16"

definition lon_segments :: nat where
  "lon_segments = 32"

definition sphere_vertex :: "real \<Rightarrow> nat \<Rightarrow> nat \<Rightarrow> vec3" where
  "sphere_vertex radius i j =
     (let lat = pi * (- (1 / 2) + real i / real lat_segments);
          lon = 2 * pi * real j / real lon_segments
      in (radius * cos lat * cos lon, radius * sin lat, radius * cos lat * sin lon))"

definition sphere_cell :: "nat \<Rightarrow> nat \<Rightarrow> face list" where
  "sphere_cell i j =
     (let first = int (i * (lon_segments + 1) + j);
          second = first + int lon_segments + 1
      in [(first, second, first + 1), (second, second + 1, first + 1)])"

definition create_sphere :: "real \<Rightarrow> vec3 list \<times> face list" where
  "create_sphere size' =
     (let radius = size' / 2
      in (concat (map (\<lambda>i. map (\<lambda>j. sphere_vertex radius i j) [0..<lon_segments + 1])
                   [0..<lat_segments + 1]),
          concat (map (\<lambda>i. concat (map (\<lambda>j. sphere_cell i j) [0..<lon_segments]))
                   [0..<lat_segments])))"

definition segments :: nat where
  "segments = 16"

definition ring_vertices :: "real \<Rightarrow> real \<Rightarrow> nat \<Rightarrow> vec3 list" where
  "ring_vertices radius height i =
     (let angle = 2 * pi * real i / real segments;
          x = radius * cos angle;
          z = radius * sin angle
      in [(x, - height / 2, z), (x, height / 2, z)])"

definition bottom_face :: "nat \<Rightarrow> face" where
  "bottom_face i = (let next_i = (i + 1) mod segments in (0, int (2 + i * 2), int (2 + next_i * 2)))"

definition top_face :: "nat \<Rightarrow> face" where
  "top_face i = (let next_i = (i + 1) mod segments in (1, int (3 + next_i * 2), int (3 + i * 2)))"

definition side_faces :: "nat \<Rightarrow> face list" where
  "side_faces i =
     (let next_i = (i + 1) mod segments
      in [(int (2 + i * 2), int (3 + i * 2), int (2 + next_i * 2)),
          (int (3 + i * 2), int (3 + next_i * 2), int (2 + next_i * 2))])"

definition create_cylinder :: "real \<Rightarrow> vec3 list \<times> face list" where
  "create_cylinder size' =
     (let radius = size' / 2;
          height = size'
      in ([(0, - height / 2, 0), (0, height / 2, 0)]
            @ concat (map (ring_vertices radius height) [0..<segments]),
          map bottom_face [0..<segments]
            @ map top_face [0..<segments]
            @ concat (map side_faces [0..<segments])))"

definition create_pyramid :: "real \<Rightarrow> vec3 list \<times> face list" where
  "create_pyramid size' =
     (let s = size' / 2;
          h = size'
      in ([(- s, - h / 2, - s), (s, - h / 2, - s), (s, - h / 2, s), (- s, - h / 2, s),
           (0, h / 2, 0)],
          [(0, 1, 2), (0, 2, 3),
           (0, 4, 1), (1, 4, 2), (2, 4, 3), (3, 4, 0)]))"

text \<open>The dispatch on the shape type, lines 156 to 163 of \<open>generate_3d\<close>.\<close>

definition create_shape :: "string \<Rightarrow> real \<Rightarrow> vec3 list \<times> face list" where
  "create_shape shape_type size' =
     (if shape_type = ''sphere'' then create_sphere size'
      else if shape_type = ''cylinder'' then create_cylinder size'
      else if shape_type = ''pyramid'' then create_pyramid size'
      else create_cube size')"

section \<open>Prompt handling (base\_model.py)\<close>

text \<open>
  Prompts are modelled as strings of 8-bit characters read as ASCII: \<open>str.lower\<close> maps the
  letters A to Z, and \<open>str.strip\<close> and \<open>str.split\<close> treat the characters 9 to 13, 28 to 31 and
  32 as whitespace.
\<close>

definition isspace :: "char \<Rightarrow> bool" where
  "isspace c = ((of_char c :: nat) \<in> set [9, 10, 11, 12, 13, 28, 29, 30, 31, 32])"

definition lower_char :: "char \<Rightarrow> char" where
  "lower_char c = (let n = (of_char c :: nat) in if 65 \<le> n \<and> n \<le> 90 then char_of (n + 32) else c)"

definition strip :: "string \<Rightarrow> string" where
  "strip s = rev (dropWhile isspace (rev (dropWhile isspace s)))"

definition lower :: "string \<Rightarrow> string" where
  "lower s = map lower_char s"

fun split_loop :: "string \<Rightarrow> string \<Rightarrow> string list" where
  "split_loop word [] = (if word = [] then [] else [word])"
| "split_loop word (c # cs) =
     (if isspace c
      then (if word = [] then split_loop [] cs else word # split_loop [] cs)
      else split_loop (word @ [c]) cs)"

definition split :: "string \<Rightarrow> string list" where
  "split s = split_loop [] s"

fun join :: "string \<Rightarrow> string list \<Rightarrow> string" where
  "join sep [] = []"
| "join sep [w] = w"
| "join sep (w # ws) = w @ sep @ join sep ws"

text \<open>The substring test \<open>word in prompt\<close>.\<close>

fun starts_with :: "string \<Rightarrow> string \<Rightarrow> bool" where
  "starts_with [] s = True"
| "starts_with (c # w) [] = False"
| "starts_with (c # w) (d # s) = (c = d \<and> starts_with w s)"

fun contains :: "string \<Rightarrow> string \<Rightarrow> bool" where
  "contains w [] = (w = [])"
| "contains w (d # s) = (starts_with w (d # s) \<or> contains w s)"

definition banned_words :: "string list" where
  "banned_words = [''explicit'', ''inappropriate'', ''nsfw'']"

fun banned_loop :: "string list \<Rightarrow> string \<Rightarrow> py_error + string" where
  "banned_loop [] cleaned_prompt = Inr cleaned_prompt"
| "banned_loop (word # rest) cleaned_prompt =
     (if contains word cleaned_prompt
      then Inl (ValueError (''Inappropriate content detected: '' @ word))
      else banned_loop rest cleaned_prompt)"

definition clean :: "string \<Rightarrow> string" where
  "clean prompt = join '' '' (split (lower (strip prompt)))"

definition preprocess_prompt :: "string \<Rightarrow> py_error + string" where
  "preprocess_prompt prompt = banned_loop banned_words (clean prompt)"

definition any_word_in :: "string list \<Rightarrow> string \<Rightarrow> bool" where
  "any_word_in ws prompt = list_ex (\<lambda>word. contains word prompt) ws"

definition extract_shape_type :: "string \<Rightarrow> string" where
  "extract_shape_type prompt =
     (if any_word_in [''sphere'', ''ball'', ''round'', ''orb''] prompt then ''sphere''
      else if any_word_in [''cylinder'', ''tube'', ''pipe'', ''rod''] prompt then ''cylinder''
      else if any_word_in [''pyramid'', ''triangle'', ''cone''] prompt then ''pyramid''
      else ''cube'')"

definition extract_size :: "string \<Rightarrow> real" where
  "extract_size prompt =
     (if any_word_in [''small'', ''tiny'', ''mini''] prompt then 1 / 2
      else if any_word_in [''large'', ''big'', ''huge'', ''giant''] prompt then 2
      else 1)"

section \<open>Demo generation (base\_model.py)\<close>

text \<open>
  The metadata dict. The keys \<open>shape_type\<close> and \<open>generation_method\<close> are added by
  \<open>generate_3d\<close> after \<open>postprocess_geometry\<close> has built the dict, hence the options. The
  bounding box of the metadata has the keys \<open>min\<close>, \<open>max\<close> and \<open>size\<close> only.
\<close>

record metadata =
  meta_vertex_count :: nat
  meta_face_count :: nat
  meta_bounding_box :: bounding_box
  volume_estimate :: real
  shape_type :: "string option"
  generation_method :: "string option"

record generation_result =
  result_vertices :: "vec3 list"
  result_faces :: "face list"
  result_metadata :: metadata

definition postprocess_geometry :: "vec3 list \<Rightarrow> face list \<Rightarrow> py_error + generation_result" where
  "postprocess_geometry vs fs =
     (if ndim vs \<noteq> 2 \<or> shape1 vs \<noteq> 3 then Inl (ValueError ''Invalid vertices shape'')
      else if ndim fs \<noteq> 2 \<or> shape1 fs \<noteq> 3 then Inl (ValueError ''Invalid faces shape'')
      else if length vs = 0 \<or> length fs = 0 then Inl (ValueError ''Empty geometry generated'')
      else (case column_min vs of Inl e \<Rightarrow> Inl e | Inr bbox_min \<Rightarrow>
           (case column_max vs of Inl e \<Rightarrow> Inl e | Inr bbox_max \<Rightarrow>
              Inr \<lparr>result_vertices = vs, result_faces = fs,
                   result_metadata =
                     \<lparr>meta_vertex_count = length vs, meta_face_count = length fs,
                      meta_bounding_box =
                        \<lparr>box_min = bbox_min, box_max = bbox_max,
                         box_size = vsub bbox_max bbox_min, box_center = None\<rparr>,
                      volume_estimate = base_estimate_volume vs fs,
                      shape_type = None, generation_method = None\<rparr>\<rparr>)))"

text \<open>\<open>DemoText3DModel.generate_3d\<close>: every exception is logged and raised again.\<close>

definition generate_3d :: "string \<Rightarrow> py_error + generation_result" where
  "generate_3d prompt =
     (case preprocess_prompt prompt of
        Inl e \<Rightarrow> Inl e
      | Inr cleaned_prompt \<Rightarrow>
          (let st = extract_shape_type cleaned_prompt;
               size' = extract_size cleaned_prompt
           in case create_shape st size' of
                (vs, fs) \<Rightarrow>
                  (case postprocess_geometry vs fs of
                     Inl e \<Rightarrow> Inl e
                   | Inr result \<Rightarrow>
                       Inr (result\<lparr>result_metadata :=
                              (result_metadata result)\<lparr>shape_type := Some st,
                                 generation_method := Some ''demo''\<rparr>\<rparr>))))"

section \<open>Reference definitions\<close>

text \<open>
  A face is in bounds when numpy can read its three rows: every index lies in \<open>[-N, N)\<close>.
  It is in range when every index lies in \<open>[0, N)\<close>.
\<close>

definition in_bounds :: "vec3 list \<Rightarrow> face \<Rightarrow> bool" where
  "in_bounds vertices f = (case f of (a, b, c) \<Rightarrow>
     (let n = int (length vertices)
      in - n \<le> a \<and> a < n \<and> - n \<le> b \<and> b < n \<and> - n \<le> c \<and> c < n))"

definition in_range :: "nat \<Rightarrow> face \<Rightarrow> bool" where
  "in_range n f = (case f of (a, b, c) \<Rightarrow>
     0 \<le> a \<and> a < int n \<and> 0 \<le> b \<and> b < int n \<and> 0 \<le> c \<and> c < int n)"

text \<open>
  The surface area as the specification words it: the sum of the triangle areas, a face
  whose lookup raises contributing nothing.
\<close>

definition spec_surface_area :: "vec3 list \<Rightarrow> face list \<Rightarrow> real" where
  "spec_surface_area vertices faces =
     (\<Sum>f\<leftarrow>faces. case gather vertices f of Inl e \<Rightarrow> 0 | Inr t \<Rightarrow> triangle_area t)"

text \<open>
  The volume as the specification words it: the absolute value of the sum of the signed
  tetrahedron volumes of the faces.
\<close>

definition spec_volume :: "vec3 list \<Rightarrow> face list \<Rightarrow> real" where
  "spec_volume vertices faces =
     \<bar>\<Sum>f\<leftarrow>faces. case gather vertices f of Inl e \<Rightarrow> 0 | Inr t \<Rightarrow> triple_product t / 6\<bar>"

text \<open>All the keywords that \<open>_extract_shape_type\<close> and \<open>_extract_size\<close> look for.\<close>

definition shape_words :: "string list" where
  "shape_words = [''sphere'', ''ball'', ''round'', ''orb'', ''cylinder'', ''tube'', ''pipe'', ''rod'',
     ''pyramid'', ''triangle'', ''cone'']"

definition size_words :: "string list" where
  "size_words = [''small'', ''tiny'', ''mini'', ''large'', ''big'', ''huge'', ''giant'']"

text \<open>
  The area of the triangle of a face, by the formula of the surface area estimate; a face
  that cannot be read has no area.
\<close>

definition face_area :: "vec3 list \<Rightarrow> face \<Rightarrow> real" where
  "face_area vertices f = (case gather vertices f of Inl e \<Rightarrow> 0 | Inr t \<Rightarrow> triangle_area t)"



text \<open>
  The faces that the code keeps: three different indices and a cross product whose norm,
  twice the triangle area, exceeds \<open>1e-10\<close>.
\<close>

definition keeps :: "vec3 list \<Rightarrow> face \<Rightarrow> bool" where
  "keeps vertices f = (distinct_indices f \<and> 2 * face_area vertices f > area_epsilon)"

text \<open>
  The state of \<open>_remove_duplicate_vertices\<close> after its first loop has run over a vertex
  array: the kept vertices and the vertex mapping.
\<close>

definition welded :: "real \<Rightarrow> vec3 list \<Rightarrow> vec3 list \<times> (int \<rightharpoonup> nat)" where
  "welded tolerance vertices = weld_loop tolerance vertices 0 [] Map.empty"

text \<open>A list of vertices none of which is close to an earlier one.\<close>

definition fresh :: "real \<Rightarrow> vec3 list \<Rightarrow> bool" where
  "fresh tolerance us = (\<forall>j<length us. \<forall>k<j. \<not> allclose (us ! j) (us ! k) tolerance)"

text \<open>A face with every index replaced by its entry in the vertex mapping.\<close>

definition remapped :: "(int \<rightharpoonup> nat) \<Rightarrow> face \<Rightarrow> face" where
  "remapped m f = (case f of (a, b, c) \<Rightarrow> (int (the (m a)), int (the (m b)), int (the (m c))))"

text \<open>
  Closeness as the specification words it: the distance between the two vertices (here the
  largest difference of a coordinate) is at most the tolerance.
\<close>

definition within_tolerance :: "vec3 \<Rightarrow> vec3 \<Rightarrow> real \<Rightarrow> bool" where
  "within_tolerance a b tolerance = (case a of (ax, ay, az) \<Rightarrow> case b of (bx, by, bz) \<Rightarrow>
     max \<bar>ax - bx\<bar> (max \<bar>ay - by\<bar> \<bar>az - bz\<bar>) \<le> tolerance)"

section \<open>Reading rows\<close>

lemma row_at_alt:
  "row_at vertices i =
     (if - int (length vertices) \<le> i \<and> i < int (length vertices)
      then Inr (vertices ! nat (if i < 0 then int (length vertices) + i else i))
      else Inl IndexError)"
  by (simp add: row_at_def Let_def)

lemma gather_raises_iff:
  "(\<exists>e. gather vertices f = Inl e) \<longleftrightarrow> \<not> in_bounds vertices f"
  by (cases f) (auto simp: gather_def row_at_alt in_bounds_def Let_def)

lemma gather_in_bounds:
  assumes "in_bounds vertices f"
  obtains t where "gather vertices f = Inr t"
  using assms gather_raises_iff [of vertices f] by (cases "gather vertices f") auto

lemma in_range_in_bounds: "in_range (length vertices) f \<Longrightarrow> in_bounds vertices f"
  by (cases f) (simp add: in_range_def in_bounds_def Let_def)

lemmas geometry_defs =
  gather_def row_at_def triangle_area_def cross_def vsub_def vnorm_def dot_def triple_product_def

section \<open>Surface area\<close>

lemma surface_area_loop_raises:
  "\<not> list_all (in_bounds vertices) faces \<Longrightarrow>
   \<exists>e. surface_area_loop vertices faces total_area = Inl e"
proof (induction faces arbitrary: total_area)
  case Nil
  then show ?case by simp
next
  case (Cons f faces)
  show ?case
  proof (cases "gather vertices f")
    case (Inl e)
    then show ?thesis by simp
  next
    case (Inr t)
    then have "in_bounds vertices f"
      using gather_raises_iff [of vertices f] by auto
    with Cons.prems have "\<not> list_all (in_bounds vertices) faces" by simp
    from Cons.IH [OF this] Inr show ?thesis by simp
  qed
qed

lemma surface_area_loop_sum:
  "list_all (in_bounds vertices) faces \<Longrightarrow>
   surface_area_loop vertices faces total_area =
     Inr (total_area + spec_surface_area vertices faces)"
proof (induction faces arbitrary: total_area)
  case Nil
  then show ?case by (simp add: spec_surface_area_def)
next
  case (Cons f faces)
  then have f: "in_bounds vertices f" and rest: "list_all (in_bounds vertices) faces"
    by simp_all
  from f obtain t where t: "gather vertices f = Inr t" by (rule gather_in_bounds)
  show ?case
    using Cons.IH [OF rest] t by (simp add: spec_surface_area_def)
qed

text \<open>
  C1 (amended). When some face holds an index outside \<open>[-N, N)\<close>, the surface area estimate is
  \<open>0.0\<close> for the whole mesh: the faces before and after it are not counted. When every index
  lies in \<open>[-N, N)\<close>, the estimate is the sum of the triangle areas \<open>|cross(v1-v0, v2-v0)|/2\<close>
  over all faces, a negative index reading from the end of the vertex array.
\<close>

theorem surface_area_all_or_nothing:
  "(\<not> list_all (in_bounds vertices) faces \<longrightarrow> estimate_surface_area vertices faces = 0) \<and>
   (list_all (in_bounds vertices) faces \<longrightarrow>
      estimate_surface_area vertices faces = spec_surface_area vertices faces)"
proof (intro conjI impI)
  assume "\<not> list_all (in_bounds vertices) faces"
  from surface_area_loop_raises [OF this, of 0]
  show "estimate_surface_area vertices faces = 0"
    by (auto simp: estimate_surface_area_def)
next
  assume "list_all (in_bounds vertices) faces"
  from surface_area_loop_sum [OF this, of 0]
  show "estimate_surface_area vertices faces = spec_surface_area vertices faces"
    by (simp add: estimate_surface_area_def)
qed

theorem surface_area_all_or_nothing_witness:
  "\<not> list_all (in_bounds [(0, 0, 0), (1, 0, 0), (0, 1, 0)]) [(0, 1, 2), (0, 1, 5)] \<and>
   estimate_surface_area [(0, 0, 0), (1, 0, 0), (0, 1, 0)] [(0, 1, 2), (0, 1, 5)] = 0 \<and>
   list_all (in_bounds [(0, 0, 0), (1, 0, 0), (0, 1, 0)]) [(0, 1, 2), (0, -2, -1)] \<and>
   estimate_surface_area [(0, 0, 0), (1, 0, 0), (0, 1, 0)] [(0, 1, 2), (0, -2, -1)] = 1"
proof -
  have a: "\<not> list_all (in_bounds [(0, 0, 0), (1, 0, 0), (0, 1, 0)]) [(0, 1, 2), (0, 1, 5)]"
    by (simp add: in_bounds_def)
  have b: "list_all (in_bounds [(0, 0, 0), (1, 0, 0), (0, 1, 0)]) [(0, 1, 2), (0, -2, -1)]"
    by (simp add: in_bounds_def)
  have c: "spec_surface_area [(0, 0, 0), (1, 0, 0), (0, 1, 0)] [(0, 1, 2), (0, -2, -1)] = 1"
    by (simp add: spec_surface_area_def geometry_defs)
  show ?thesis
    using a b c
      surface_area_all_or_nothing [of "[(0, 0, 0), (1, 0, 0), (0, 1, 0)]" "[(0, 1, 2), (0, 1, 5)]"]
      surface_area_all_or_nothing [of "[(0, 0, 0), (1, 0, 0), (0, 1, 0)]" "[(0, 1, 2), (0, -2, -1)]"]
    by simp
qed

text \<open>
  The claim as stated fails on a right triangle followed by a face with the index 5: the
  partial sum over the valid faces is \<open>1/2\<close>, the estimate is \<open>0\<close>.
\<close>

theorem surface_area_partial_sum_counterexample:
  "estimate_surface_area [(0, 0, 0), (1, 0, 0), (0, 1, 0)] [(0, 1, 2), (0, 1, 5)] = 0 \<and>
   spec_surface_area [(0, 0, 0), (1, 0, 0), (0, 1, 0)] [(0, 1, 2), (0, 1, 5)] = 1 / 2"
  by (simp add: estimate_surface_area_def spec_surface_area_def geometry_defs)

section \<open>Volume\<close>

lemma volume_loop_sum:
  "list_all (in_bounds vertices) faces \<Longrightarrow>
   volume_loop vertices faces v =
     Inr (v + (\<Sum>f\<leftarrow>faces. case gather vertices f of Inl e \<Rightarrow> 0 | Inr t \<Rightarrow> triple_product t / 6))"
proof (induction faces arbitrary: v)
  case Nil
  then show ?case by simp
next
  case (Cons f faces)
  then have f: "in_bounds vertices f" and rest: "list_all (in_bounds vertices) faces"
    by simp_all
  from f obtain t where t: "gather vertices f = Inr t" by (rule gather_in_bounds)
  show ?case
    using Cons.IH [OF rest] t by simp
qed

text \<open>
  The estimate of \<open>MeshProcessor\<close> is the absolute value of the total, as the specification
  says.
\<close>

lemma estimate_volume_is_spec_volume:
  "list_all (in_range (length vertices)) faces \<Longrightarrow>
   estimate_volume vertices faces = spec_volume vertices faces"
proof -
  assume "list_all (in_range (length vertices)) faces"
  then have "list_all (in_bounds vertices) faces"
    by (simp add: list_all_iff in_range_in_bounds)
  from volume_loop_sum [OF this, of 0] show ?thesis
    by (simp add: estimate_volume_def spec_volume_def)
qed

text \<open>
  C2. The estimate of \<open>BaseText3DModel\<close> is not that value. On the tetrahedron with the
  corners \<open>(1,0,0)\<close>, \<open>(2,0,0)\<close>, \<open>(1,1,0)\<close>, \<open>(1,0,1)\<close>, whose volume is \<open>1/6\<close>, the absolute
  value of the signed total is \<open>1/6\<close> and \<open>MeshProcessor._estimate_volume\<close> returns it, while
  \<open>BaseText3DModel._estimate_volume\<close> returns \<open>1/2\<close>, the sum of the absolute values.
\<close>

theorem volume_estimates_differ:
  "list_all (in_range 4) [(0, 2, 1), (0, 1, 3), (0, 3, 2), (1, 2, 3)] \<and>
   spec_volume [(1, 0, 0), (2, 0, 0), (1, 1, 0), (1, 0, 1)]
     [(0, 2, 1), (0, 1, 3), (0, 3, 2), (1, 2, 3)] = 1 / 6 \<and>
   estimate_volume [(1, 0, 0), (2, 0, 0), (1, 1, 0), (1, 0, 1)]
     [(0, 2, 1), (0, 1, 3), (0, 3, 2), (1, 2, 3)] = 1 / 6 \<and>
   base_estimate_volume [(1, 0, 0), (2, 0, 0), (1, 1, 0), (1, 0, 1)]
     [(0, 2, 1), (0, 1, 3), (0, 3, 2), (1, 2, 3)] = 1 / 2"
  by (simp add: in_range_def spec_volume_def estimate_volume_def base_estimate_volume_def
      geometry_defs)

section \<open>Bounding box\<close>

lemma fold_min_Min: "fold min xs (x::real) = Min (set (x # xs))"
  by (rule Min.set_eq_fold [symmetric])

lemma fold_max_Max: "fold max xs (x::real) = Max (set (x # xs))"
  by (rule Max.set_eq_fold [symmetric])

text \<open>
  For a non-empty array the box holds the componentwise minimum and maximum, their
  difference and their midpoint.
\<close>

lemma bounding_box_nonempty:
  assumes "vertices \<noteq> []"
  shows "calculate_bounding_box vertices =
     Inr \<lparr>box_min = (Min (fst ` set vertices), Min ((fst \<circ> snd) ` set vertices),
                     Min ((snd \<circ> snd) ` set vertices)),
          box_max = (Max (fst ` set vertices), Max ((fst \<circ> snd) ` set vertices),
                     Max ((snd \<circ> snd) ` set vertices)),
          box_size = vsub (Max (fst ` set vertices), Max ((fst \<circ> snd) ` set vertices),
                           Max ((snd \<circ> snd) ` set vertices))
                          (Min (fst ` set vertices), Min ((fst \<circ> snd) ` set vertices),
                           Min ((snd \<circ> snd) ` set vertices)),
          box_center = Some (vhalf (vadd
                          (Min (fst ` set vertices), Min ((fst \<circ> snd) ` set vertices),
                           Min ((snd \<circ> snd) ` set vertices))
                          (Max (fst ` set vertices), Max ((fst \<circ> snd) ` set vertices),
                           Max ((snd \<circ> snd) ` set vertices))))\<rparr>"
proof -
  from assms obtain v vs where vs: "vertices = v # vs" by (cases vertices) auto
  show ?thesis
    unfolding vs calculate_bounding_box_def column_min_def column_max_def
    by (simp add: fold_min_Min fold_max_Max image_comp del: Min_insert Max_insert)
qed

lemma bounding_box_never_raises: "\<exists>bb. calculate_bounding_box vertices = Inr bb"
  by (cases vertices) (simp_all add: calculate_bounding_box_def column_min_def column_max_def)

text \<open>
  C6. For the empty vertex array the function returns the dict with the keys \<open>min\<close>, \<open>max\<close>
  and \<open>size\<close>, all zero; the key \<open>center\<close>, which the dict of a non-empty array has, is
  missing.
\<close>

theorem bounding_box_empty_has_no_center:
  "calculate_bounding_box [] =
     Inr \<lparr>box_min = (0, 0, 0), box_max = (0, 0, 0), box_size = (0, 0, 0), box_center = None\<rparr>"
  by (simp add: calculate_bounding_box_def)

section \<open>Validation\<close>

text \<open>
  C5. On the empty mesh (vertices of shape \<open>(0,3)\<close>, faces of shape \<open>(0,3)\<close>) the report is
  invalid and its errors are exactly "No vertices found" and "No faces found", in this order,
  whatever the topology library does.
\<close>

theorem validate_empty_mesh:
  "is_valid (validate_mesh trimesh [] []) = False \<and>
   errors (validate_mesh trimesh [] []) = [''No vertices found'', ''No faces found'']"
  by (cases "trimesh [] []")
    (simp_all add: validate_mesh_def structural_checks_def advanced_validation_def
      calculate_bounding_box_def add_error_def add_warning_def ndim_def shape1_def
      any_greater_def any_less_def Let_def)

lemma advanced_validation_stats:
  "\<exists>st'. stats (advanced_validation tm v st) = Some st' \<and>
     vertex_count st' = vertex_count st \<and> face_count st' = face_count st \<and>
     bounding_box st' = bounding_box st \<and> surface_area st' = surface_area st \<and>
     volume st' = volume st"
  by (cases tm) (simp_all add: advanced_validation_def add_warning_def Let_def)

text \<open>
  C10. For every vertex array of shape \<open>(N,3)\<close> and face array of shape \<open>(M,3)\<close> the report
  has statistics: the vertex count \<open>N\<close>, the face count \<open>M\<close>, the bounding box, the surface
  area and the volume, whether or not the structural checks failed.
\<close>

theorem validate_stats_unconditional:
  "\<exists>st. stats (validate_mesh trimesh vertices faces) = Some st \<and>
     vertex_count st = length vertices \<and> face_count st = length faces \<and>
     calculate_bounding_box vertices = Inr (bounding_box st) \<and>
     surface_area st = estimate_surface_area vertices faces \<and>
     volume st = estimate_volume vertices faces"
proof -
  obtain bb where bb: "calculate_bounding_box vertices = Inr bb"
    using bounding_box_never_raises by blast
  let ?v6 = "structural_checks vertices faces
               \<lparr>is_valid = True, errors = [], warnings = [], stats = None\<rparr>"
  let ?st0 = "\<lparr>vertex_count = length vertices, face_count = length faces, bounding_box = bb,
               surface_area = estimate_surface_area vertices faces,
               volume = estimate_volume vertices faces,
               is_manifold = None, is_watertight = None\<rparr>"
  obtain st where st: "stats (advanced_validation (trimesh vertices faces) ?v6 ?st0) = Some st"
    and fields: "vertex_count st = vertex_count ?st0" "face_count st = face_count ?st0"
      "bounding_box st = bounding_box ?st0" "surface_area st = surface_area ?st0"
      "volume st = volume ?st0"
    using advanced_validation_stats [of "trimesh vertices faces" ?v6 ?st0] by blast
  have "stats (validate_mesh trimesh vertices faces) = Some st"
    using st by (simp add: validate_mesh_def bb Let_def)
  moreover have "calculate_bounding_box vertices = Inr (bounding_box st)"
    using fields(3) bb by simp
  ultimately show ?thesis
    using fields by (intro exI [of _ st]) simp
qed

section \<open>Shape generation\<close>

lemma length_concat_const:
  "(\<And>x. x \<in> set xs \<Longrightarrow> length (f x) = k) \<Longrightarrow> length (concat (map f xs)) = length xs * k"
  by (induction xs) simp_all

lemma cube_counts:
  "length (fst (create_cube s)) = 8 \<and> length (snd (create_cube s)) = 12"
  by (simp add: create_cube_def Let_def)

lemma cube_in_range: "list_all (in_range 8) (snd (create_cube s))"
  by (simp add: create_cube_def Let_def in_range_def)

lemma sphere_cell_in_range:
  "i < 16 \<Longrightarrow> j < 32 \<Longrightarrow> list_all (in_range 561) (sphere_cell i j)"
  by (simp add: sphere_cell_def in_range_def lon_segments_def Let_def)

lemma sphere_counts:
  "length (fst (create_sphere s)) = 561 \<and> length (snd (create_sphere s)) = 1024"
  by (simp add: create_sphere_def Let_def length_concat_const [where k = 33]
      length_concat_const [where k = 64] length_concat_const [where k = 2]
      sphere_cell_def lat_segments_def lon_segments_def)

lemma sphere_in_range: "list_all (in_range 561) (snd (create_sphere s))"
  using sphere_cell_in_range
  by (auto simp: create_sphere_def Let_def list_all_iff lat_segments_def lon_segments_def)

lemma cylinder_counts:
  "length (fst (create_cylinder s)) = 34 \<and> length (snd (create_cylinder s)) = 64"
  by (simp add: create_cylinder_def Let_def length_concat_const [where k = 2]
      ring_vertices_def side_faces_def segments_def)

lemma next_segment_less: "(i + 1) mod 16 < (16::nat)"
  by simp

lemma cylinder_in_range: "list_all (in_range 34) (snd (create_cylinder s))"
proof -
  have b: "\<And>i. i < 16 \<Longrightarrow> in_range 34 (bottom_face i)"
    using next_segment_less by (simp add: bottom_face_def in_range_def segments_def Let_def)
  have t: "\<And>i. i < 16 \<Longrightarrow> in_range 34 (top_face i)"
    using next_segment_less by (simp add: top_face_def in_range_def segments_def Let_def)
  have sd: "\<And>i. i < 16 \<Longrightarrow> list_all (in_range 34) (side_faces i)"
    using next_segment_less by (simp add: side_faces_def in_range_def segments_def Let_def)
  show ?thesis
    using b t sd
    by (auto simp: create_cylinder_def Let_def list_all_iff segments_def)
qed

lemma pyramid_counts:
  "length (fst (create_pyramid s)) = 5 \<and> length (snd (create_pyramid s)) = 6"
  by (simp add: create_pyramid_def Let_def)

lemma pyramid_in_range: "list_all (in_range 5) (snd (create_pyramid s))"
  by (simp add: create_pyramid_def Let_def in_range_def)

text \<open>
  C9. For each of the four kinds and for every size (so for the sizes 0.5, 1.0 and 2.0) the
  generator returns \<open>N\<close> vertices and \<open>M\<close> faces whose indices all lie in \<open>[0, N)\<close>, with
  \<open>N = 8\<close>, \<open>M = 12\<close> for the cube, \<open>N = 561\<close>, \<open>M = 1024\<close> for the sphere, \<open>N = 34\<close>,
  \<open>M = 64\<close> for the cylinder and \<open>N = 5\<close>, \<open>M = 6\<close> for the pyramid.
\<close>

theorem generator_counts_and_index_ranges:
  "length (fst (create_shape ''cube'' s)) = 8 \<and>
   length (snd (create_shape ''cube'' s)) = 12 \<and>
   list_all (in_range 8) (snd (create_shape ''cube'' s)) \<and>
   length (fst (create_shape ''sphere'' s)) = (16 + 1) * (32 + 1) \<and>
   length (snd (create_shape ''sphere'' s)) = 2 * 16 * 32 \<and>
   list_all (in_range 561) (snd (create_shape ''sphere'' s)) \<and>
   length (fst (create_shape ''cylinder'' s)) = 2 + 2 * 16 \<and>
   length (snd (create_shape ''cylinder'' s)) = 4 * 16 \<and>
   list_all (in_range 34) (snd (create_shape ''cylinder'' s)) \<and>
   length (fst (create_shape ''pyramid'' s)) = 5 \<and>
   length (snd (create_shape ''pyramid'' s)) = 6 \<and>
   list_all (in_range 5) (snd (create_shape ''pyramid'' s))"
  using cube_counts [of s] cube_in_range [of s] sphere_counts [of s] sphere_in_range [of s]
    cylinder_counts [of s] cylinder_in_range [of s] pyramid_counts [of s] pyramid_in_range [of s]
  by (simp add: create_shape_def)

section \<open>Demo generation\<close>

lemma banned_loop_passes:
  "\<not> any_word_in ws cleaned \<Longrightarrow> banned_loop ws cleaned = Inr cleaned"
  by (induction ws) (simp_all add: any_word_in_def)

lemma column_min_nonempty: "vs \<noteq> [] \<Longrightarrow> \<exists>m. column_min vs = Inr m"
  by (cases vs) (simp_all add: column_min_def)

lemma column_max_nonempty: "vs \<noteq> [] \<Longrightarrow> \<exists>m. column_max vs = Inr m"
  by (cases vs) (simp_all add: column_max_def)

lemma postprocess_geometry_succeeds:
  assumes "vs \<noteq> []" and "fs \<noteq> []"
  shows "\<exists>r. postprocess_geometry vs fs = Inr r \<and> result_vertices r = vs \<and> result_faces r = fs"
proof -
  obtain mn where mn: "column_min vs = Inr mn"
    using column_min_nonempty [OF assms(1)] by blast
  obtain mx where mx: "column_max vs = Inr mx"
    using column_max_nonempty [OF assms(1)] by blast
  show ?thesis
    using assms by (simp add: postprocess_geometry_def ndim_def shape1_def mn mx)
qed

lemma create_shape_nonempty:
  "fst (create_shape st s) \<noteq> [] \<and> snd (create_shape st s) \<noteq> []"
  using cube_counts [of s] sphere_counts [of s] cylinder_counts [of s] pyramid_counts [of s]
  by (auto simp: create_shape_def)

lemma generate_3d_after_preprocessing:
  assumes "preprocess_prompt prompt = Inr cleaned"
  shows "\<exists>r. generate_3d prompt = Inr r \<and>
           result_vertices r = fst (create_shape (extract_shape_type cleaned) (extract_size cleaned)) \<and>
           result_faces r = snd (create_shape (extract_shape_type cleaned) (extract_size cleaned)) \<and>
           shape_type (result_metadata r) = Some (extract_shape_type cleaned)"
proof -
  let ?g = "create_shape (extract_shape_type cleaned) (extract_size cleaned)"
  obtain r where r: "postprocess_geometry (fst ?g) (snd ?g) = Inr r"
    and rv: "result_vertices r = fst ?g" and rf: "result_faces r = snd ?g"
    using postprocess_geometry_succeeds [of "fst ?g" "snd ?g"] create_shape_nonempty by blast
  show ?thesis
    using r rv rf assms by (simp add: generate_3d_def Let_def case_prod_beta)
qed

lemma no_keyword_defaults:
  assumes "\<not> any_word_in (shape_words @ size_words) cleaned"
  shows "extract_shape_type cleaned = ''cube'' \<and> extract_size cleaned = 1"
  using assms
  by (simp add: extract_shape_type_def extract_size_def any_word_in_def shape_words_def
      size_words_def)

text \<open>
  C3 (amended). Demo generation fails because of the prompt's content exactly when the
  cleaned prompt (stripped, lower-cased, runs of whitespace collapsed) contains one of the
  banned words "explicit", "inappropriate", "nsfw": it then raises ValueError. For every other
  prompt generation succeeds, and a prompt that matches no shape and no size keyword yields
  the cube of size 1.0.
\<close>

theorem generate_3d_fails_only_on_banned_words:
  "(any_word_in banned_words (clean prompt) \<longrightarrow> (\<exists>msg. generate_3d prompt = Inl (ValueError msg))) \<and>
   (\<not> any_word_in banned_words (clean prompt) \<longrightarrow>
      (\<exists>r. generate_3d prompt = Inr r) \<and>
      (\<not> any_word_in (shape_words @ size_words) (clean prompt) \<longrightarrow>
         (\<exists>r. generate_3d prompt = Inr r \<and>
              result_vertices r = fst (create_cube 1) \<and>
              result_faces r = snd (create_cube 1) \<and>
              shape_type (result_metadata r) = Some ''cube'')))"
proof (intro conjI impI)
  assume "any_word_in banned_words (clean prompt)"
  then have "\<exists>msg. banned_loop banned_words (clean prompt) = Inl (ValueError msg)"
    by (auto simp: any_word_in_def banned_words_def)
  then show "\<exists>msg. generate_3d prompt = Inl (ValueError msg)"
    by (auto simp: generate_3d_def preprocess_prompt_def)
next
  assume "\<not> any_word_in banned_words (clean prompt)"
  then have "preprocess_prompt prompt = Inr (clean prompt)"
    by (simp add: preprocess_prompt_def banned_loop_passes)
  from generate_3d_after_preprocessing [OF this]
  show "\<exists>r. generate_3d prompt = Inr r" by blast
next
  assume "\<not> any_word_in banned_words (clean prompt)"
    and none: "\<not> any_word_in (shape_words @ size_words) (clean prompt)"
  then have "preprocess_prompt prompt = Inr (clean prompt)"
    by (simp add: preprocess_prompt_def banned_loop_passes)
  from generate_3d_after_preprocessing [OF this] no_keyword_defaults [OF none]
  show "\<exists>r. generate_3d prompt = Inr r \<and>
              result_vertices r = fst (create_cube 1) \<and>
              result_faces r = snd (create_cube 1) \<and>
              shape_type (result_metadata r) = Some ''cube''"
    by (simp add: create_shape_def)
qed

theorem generate_3d_fails_only_on_banned_words_witness:
  "any_word_in banned_words (clean ''An  NSFW cube'') \<and>
   (\<exists>msg. generate_3d ''An  NSFW cube'' = Inl (ValueError msg)) \<and>
   \<not> any_word_in banned_words (clean '' A shiny  Thing'') \<and>
   \<not> any_word_in (shape_words @ size_words) (clean '' A shiny  Thing'') \<and>
   (\<exists>r. generate_3d '' A shiny  Thing'' = Inr r \<and>
        result_vertices r = fst (create_cube 1) \<and>
        result_faces r = snd (create_cube 1) \<and>
        shape_type (result_metadata r) = Some ''cube'')"
proof -
  have a: "any_word_in banned_words (clean ''An  NSFW cube'')"
    by code_simp
  have b: "\<not> any_word_in banned_words (clean '' A shiny  Thing'')"
    by code_simp
  have c: "\<not> any_word_in (shape_words @ size_words) (clean '' A shiny  Thing'')"
    by code_simp
  show ?thesis
    using a b c
      generate_3d_fails_only_on_banned_words [of "''An  NSFW cube''"]
      generate_3d_fails_only_on_banned_words [of "'' A shiny  Thing''"]
    by blast
qed

text \<open>
  The claim as stated fails on the prompt "nsfw": it matches no shape and no size keyword,
  and generation raises.
\<close>

theorem generate_3d_banned_prompt_counterexample:
  "\<not> any_word_in (shape_words @ size_words) (clean ''nsfw'') \<and>
   generate_3d ''nsfw'' = Inl (ValueError ''Inappropriate content detected: nsfw'')"
proof -
  have a: "\<not> any_word_in (shape_words @ size_words) (clean ''nsfw'')"
    by code_simp
  have b: "preprocess_prompt ''nsfw'' = Inl (ValueError ''Inappropriate content detected: nsfw'')"
    by code_simp
  show ?thesis
    using a b by (simp add: generate_3d_def)
qed

section \<open>Degenerate faces\<close>

lemma vnorm_z: "vnorm (0, 0, z) = \<bar>z\<bar>"
  by (simp add: vnorm_def)

lemma degenerate_loop_filter:
  "degenerate_loop vertices faces valid_faces = valid_faces @ filter (keeps vertices) faces"
proof (induction faces arbitrary: valid_faces)
  case Nil
  then show ?case by simp
next
  case (Cons f faces)
  show ?case
  proof (cases "gather vertices f")
    case (Inl e)
    then show ?thesis
      using Cons.IH by (simp add: keeps_def face_area_def area_epsilon_def)
  next
    case (Inr t)
    obtain v0 v1 v2 where t: "t = (v0, v1, v2)" by (cases t) auto
    show ?thesis
      using Cons.IH Inr t
      by (simp add: keeps_def face_area_def triangle_area_def Let_def)
  qed
qed

text \<open>
  What the code computes: it drops exactly the faces that reference the same vertex index more
  than once or whose cross product \<open>cross(v1-v0, v2-v0)\<close> has a norm of at most \<open>1e-10\<close>;
  the remaining faces keep their order, and when no face remains the original face array is
  returned. In particular a face of area zero next to two kept faces is removed and the two
  kept faces are returned.
\<close>

lemma remove_degenerate_faces_by_cross_norm:
  "remove_degenerate_faces vertices faces =
     (if filter (keeps vertices) faces \<noteq> [] then filter (keeps vertices) faces else faces) \<and>
   (face_area vertices d = 0 \<and> keeps vertices a \<and> keeps vertices b \<longrightarrow>
      remove_degenerate_faces vertices [d, a, b] = [a, b] \<and>
      remove_degenerate_faces vertices [a, d, b] = [a, b] \<and>
      remove_degenerate_faces vertices [a, b, d] = [a, b])"
  by (simp add: remove_degenerate_faces_def degenerate_loop_filter Let_def keeps_def
      area_epsilon_def)

lemma remove_degenerate_faces_by_cross_norm_example:
  "face_area [(0, 0, 0), (1, 0, 0), (2, 0, 0), (0, 1, 0), (1, 1, 0)] (0, 1, 2) = 0 \<and>
   keeps [(0, 0, 0), (1, 0, 0), (2, 0, 0), (0, 1, 0), (1, 1, 0)] (0, 1, 3) \<and>
   keeps [(0, 0, 0), (1, 0, 0), (2, 0, 0), (0, 1, 0), (1, 1, 0)] (1, 4, 3) \<and>
   remove_degenerate_faces [(0, 0, 0), (1, 0, 0), (2, 0, 0), (0, 1, 0), (1, 1, 0)]
     [(0, 1, 2), (0, 1, 3), (1, 4, 3)] = [(0, 1, 3), (1, 4, 3)]"
proof -
  let ?vs = "[(0, 0, 0), (1, 0, 0), (2, 0, 0), (0, 1, 0), (1, 1, 0)] :: vec3 list"
  have d: "face_area ?vs (0, 1, 2) = 0"
    by (simp add: face_area_def gather_def row_at_def triangle_area_def cross_def vsub_def
        vnorm_z)
  have a: "keeps ?vs (0, 1, 3)"
    by (simp add: keeps_def distinct_indices_def area_epsilon_def face_area_def gather_def
        row_at_def triangle_area_def cross_def vsub_def vnorm_z)
  have b: "keeps ?vs (1, 4, 3)"
    by (simp add: keeps_def distinct_indices_def area_epsilon_def face_area_def gather_def
        row_at_def triangle_area_def cross_def vsub_def vnorm_z)
  show ?thesis
    using d a b remove_degenerate_faces_by_cross_norm [of ?vs "[]" "(0, 1, 2)" "(0, 1, 3)" "(1, 4, 3)"]
    by blast
qed


section \<open>Vertex welding\<close>


lemma find_close_None:
  "find_close tol v us j = None \<longleftrightarrow> (\<forall>u\<in>set us. \<not> allclose v u tol)"
  by (induction us arbitrary: j) auto

lemma find_close_Some:
  "find_close tol v us j0 = Some j \<Longrightarrow>
   j0 \<le> j \<and> j - j0 < length us \<and> allclose v (us ! (j - j0)) tol \<and>
   (\<forall>k<j - j0. \<not> allclose v (us ! k) tol)"
proof (induction us arbitrary: j0)
  case Nil
  then show ?case by simp
next
  case (Cons u us)
  show ?case
  proof (cases "allclose v u tol")
    case True
    with Cons.prems show ?thesis by simp
  next
    case False
    with Cons.prems have "find_close tol v us (Suc j0) = Some j" by simp
    from Cons.IH [OF this]
    have le: "Suc j0 \<le> j" and lt: "j - Suc j0 < length us"
      and cl: "allclose v (us ! (j - Suc j0)) tol"
      and nc: "\<forall>k<j - Suc j0. \<not> allclose v (us ! k) tol" by simp_all
    from le have eq: "j - j0 = Suc (j - Suc j0)" by simp
    have "\<forall>k<j - j0. \<not> allclose v ((u # us) ! k) tol"
    proof (intro allI impI)
      fix k assume "k < j - j0"
      then show "\<not> allclose v ((u # us) ! k) tol"
        using False nc eq by (cases k) simp_all
    qed
    then show ?thesis
      using le lt cl eq by simp
  qed
qed

lemma weld_loop_append:
  "weld_loop tol (xs @ ys) i us m =
     (case weld_loop tol xs i us m of (us', m') \<Rightarrow> weld_loop tol ys (i + length xs) us' m')"
  by (induction xs arbitrary: i us m) (simp_all split: option.splits)

lemma weld_loop_step_None:
  "find_close tol x us 0 = None \<Longrightarrow>
   weld_loop tol (x # xs) i us m =
     weld_loop tol xs (Suc i) (us @ [x]) (m(int i \<mapsto> length us))"
  by simp

lemma weld_loop_step_Some:
  "find_close tol x us 0 = Some j \<Longrightarrow>
   weld_loop tol (x # xs) i us m = weld_loop tol xs (Suc i) us (m(int i \<mapsto> j))"
  by simp

lemma weld_loop_extends: "\<exists>ext. fst (weld_loop tol xs i us m) = us @ ext"
proof (induction xs arbitrary: i us m)
  case Nil
  then show ?case by simp
next
  case (Cons x xs)
  show ?case
  proof (cases "find_close tol x us 0")
    case None
    obtain ext where
      "fst (weld_loop tol xs (Suc i) (us @ [x]) (m(int i \<mapsto> length us))) = (us @ [x]) @ ext"
      using Cons.IH by blast
    then have "fst (weld_loop tol (x # xs) i us m) = us @ (x # ext)"
      unfolding weld_loop_step_None [OF None] by (simp only: append_assoc append_Cons append_Nil)
    then show ?thesis by (rule exI)
  next
    case (Some j)
    show ?thesis
      unfolding weld_loop_step_Some [OF Some] by (rule Cons.IH)
  qed
qed

lemma weld_loop_keeps_mapping:
  "k < int i \<Longrightarrow> snd (weld_loop tol xs i us m) k = m k"
  by (induction xs arbitrary: i us m) (auto split: option.splits)

lemma weld_loop_total:
  "(\<forall>k<i. \<exists>j<length us. m (int k) = Some j) \<Longrightarrow>
   \<forall>k<i + length xs. \<exists>j<length (fst (weld_loop tol xs i us m)).
      snd (weld_loop tol xs i us m) (int k) = Some j"
proof (induction xs arbitrary: i us m)
  case Nil
  then show ?case by simp
next
  case (Cons x xs)
  show ?case
  proof (cases "find_close tol x us 0")
    case None
    have "\<forall>k<Suc i. \<exists>j<length (us @ [x]). (m(int i \<mapsto> length us)) (int k) = Some j"
      using Cons.prems by (auto simp: less_Suc_eq)
    from Cons.IH [OF this] show ?thesis
      unfolding weld_loop_step_None [OF None]
      by (simp only: length_Cons add_Suc_right add_Suc)
  next
    case (Some j)
    from find_close_Some [OF Some] have "j < length us" by simp
    then have "\<forall>k<Suc i. \<exists>j'<length us. (m(int i \<mapsto> j)) (int k) = Some j'"
      using Cons.prems by (auto simp: less_Suc_eq)
    from Cons.IH [OF this] show ?thesis
      unfolding weld_loop_step_Some [OF Some]
      by (simp only: length_Cons add_Suc_right add_Suc)
  qed
qed

lemma remap_faces_in_range:
  assumes "\<forall>k<n. \<exists>j. m (int k) = Some j"
  shows "list_all (in_range n) fs \<Longrightarrow> remap_faces m fs = Inr (map (remapped m) fs)"
proof (induction fs)
  case Nil
  then show ?case by simp
next
  case (Cons f fs)
  obtain a b c where f: "f = (a, b, c)" by (cases f) auto
  have key: "\<And>x. 0 \<le> x \<Longrightarrow> x < int n \<Longrightarrow> \<exists>j. m x = Some j"
  proof -
    fix x :: int assume "0 \<le> x" "x < int n"
    then have "nat x < n" and "int (nat x) = x" by simp_all
    with assms show "\<exists>j. m x = Some j" by metis
  qed
  from Cons.prems f obtain ja jb jc where "m a = Some ja" "m b = Some jb" "m c = Some jc"
    using key [of a] key [of b] key [of c] by (auto simp: in_range_def)
  then have "remap_face m f = Inr (remapped m f)"
    by (simp add: remap_face_def lookup_def remapped_def f)
  then show ?case
    using Cons by simp
qed


lemma fresh_snoc:
  assumes "fresh tol us" and "\<forall>u\<in>set us. \<not> allclose v u tol"
  shows "fresh tol (us @ [v])"
  unfolding fresh_def
proof (intro allI impI)
  fix j k assume j: "j < length (us @ [v])" and k: "k < j"
  show "\<not> allclose ((us @ [v]) ! j) ((us @ [v]) ! k) tol"
  proof (cases "j < length us")
    case True
    with k assms(1) show ?thesis by (simp add: fresh_def nth_append)
  next
    case False
    with j have "j = length us" by simp
    with k assms(2) show ?thesis by (simp add: nth_append)
  qed
qed

lemma fresh_append_head:
  assumes "fresh tol (us @ x # xs)"
  shows "\<forall>u\<in>set us. \<not> allclose x u tol"
proof
  fix u assume "u \<in> set us"
  then obtain k where k: "k < length us" and u: "u = us ! k"
    by (auto simp: in_set_conv_nth)
  have "length us < length (us @ x # xs)" by simp
  with assms k have "\<not> allclose ((us @ x # xs) ! length us) ((us @ x # xs) ! k) tol"
    unfolding fresh_def by blast
  with k u show "\<not> allclose x u tol" by (simp add: nth_append)
qed

lemma weld_loop_fresh:
  "fresh tol us \<Longrightarrow> fresh tol (fst (weld_loop tol xs i us m))"
proof (induction xs arbitrary: i us m)
  case Nil
  then show ?case by simp
next
  case (Cons x xs)
  show ?case
  proof (cases "find_close tol x us 0")
    case None
    then have "\<forall>u\<in>set us. \<not> allclose x u tol" by (simp add: find_close_None)
    with Cons.prems have "fresh tol (us @ [x])" by (rule fresh_snoc)
    then show ?thesis
      unfolding weld_loop_step_None [OF None] by (rule Cons.IH)
  next
    case (Some j)
    show ?thesis
      unfolding weld_loop_step_Some [OF Some] using Cons.prems by (rule Cons.IH)
  qed
qed

lemma weld_loop_of_fresh:
  "fresh tol (us @ xs) \<Longrightarrow> fst (weld_loop tol xs i us m) = us @ xs"
proof (induction xs arbitrary: i us m)
  case Nil
  then show ?case by simp
next
  case (Cons x xs)
  from fresh_append_head [OF Cons.prems]
  have None: "find_close tol x us 0 = None" by (simp add: find_close_None)
  from Cons.prems have "fresh tol ((us @ [x]) @ xs)" by simp
  from Cons.IH [OF this] show ?case
    unfolding weld_loop_step_None [OF None] by simp
qed

lemma fresh_Nil: "fresh tol []"
  by (simp add: fresh_def)

lemma welded_fresh: "fresh tol (fst (welded tol vs))"
  unfolding welded_def using fresh_Nil by (rule weld_loop_fresh)

lemma welded_idempotent: "fst (welded tol (fst (welded tol vs))) = fst (welded tol vs)"
  using weld_loop_of_fresh [of tol "[]" "fst (welded tol vs)" 0 Map.empty] welded_fresh [of tol vs]
  by (simp add: welded_def)

lemma remove_duplicate_vertices_cases:
  "fst (remove_duplicate_vertices vs fs tol) = vs \<and> snd (remove_duplicate_vertices vs fs tol) = fs \<or>
   fst (remove_duplicate_vertices vs fs tol) = fst (welded tol vs)"
  by (simp add: remove_duplicate_vertices_def welded_def split: prod.splits sum.splits)

text \<open>
  C8. Welding the result of a welding again, with the same tolerance, returns the same vertex
  array, hence the same vertex count: the second application merges no further vertices. This
  holds for every vertex and face array, also when a face index is out of range and the first
  application returns its input.
\<close>

theorem weld_twice_same_vertices:
  "fst (remove_duplicate_vertices (fst (remove_duplicate_vertices vs fs tol))
          (snd (remove_duplicate_vertices vs fs tol)) tol) =
     fst (remove_duplicate_vertices vs fs tol) \<and>
   length (fst (remove_duplicate_vertices (fst (remove_duplicate_vertices vs fs tol))
          (snd (remove_duplicate_vertices vs fs tol)) tol)) =
     length (fst (remove_duplicate_vertices vs fs tol))"
proof -
  let ?r = "remove_duplicate_vertices vs fs tol"
  have "fst (remove_duplicate_vertices (fst ?r) (snd ?r) tol) = fst ?r"
    using remove_duplicate_vertices_cases [of vs fs tol]
  proof
    assume same: "fst ?r = vs \<and> snd ?r = fs"
    then show ?thesis by simp
  next
    assume w: "fst ?r = fst (welded tol vs)"
    from remove_duplicate_vertices_cases [of "fst ?r" "snd ?r" tol]
    show ?thesis
      using w welded_idempotent [of tol vs] by auto
  qed
  then show ?thesis by simp
qed

lemma welded_split:
  assumes "i < length vs"
  shows "welded tol vs =
     (case welded tol (take i vs) of (ks, mk) \<Rightarrow>
        weld_loop tol (vs ! i # drop (Suc i) vs) i ks mk)"
proof -
  from assms have "vs = take i vs @ (vs ! i # drop (Suc i) vs)"
    by (simp add: id_take_nth_drop)
  then have "welded tol vs = weld_loop tol (take i vs @ (vs ! i # drop (Suc i) vs)) 0 [] Map.empty"
    by (simp add: welded_def)
  also have "\<dots> = (case welded tol (take i vs) of (ks, mk) \<Rightarrow>
        weld_loop tol (vs ! i # drop (Suc i) vs) (0 + length (take i vs)) ks mk)"
    unfolding weld_loop_append welded_def ..
  finally show ?thesis using assms by (simp add: min_def)
qed

lemma welded_total:
  "\<forall>k<length vs. \<exists>j<length (fst (welded tol vs)). snd (welded tol vs) (int k) = Some j"
  using weld_loop_total [of 0 "[]" Map.empty vs tol] by (simp add: welded_def)

text \<open>
  C4 (amended). Let \<open>ks\<close> be the vertices kept when the loop reaches vertex \<open>i\<close>; they are a
  prefix of the final vertex array \<open>us\<close>. Closeness is the test of \<open>np.allclose\<close>: every
  coordinate satisfies \<open>|v - u| <= tolerance + 1e-5 * |u|\<close>. If vertex \<open>i\<close> is close to some
  vertex of \<open>ks\<close>, it is merged: its new index is the index of the first vertex of \<open>ks\<close> it
  is close to. Otherwise it is kept unchanged, at the new index \<open>length ks\<close>. When every
  face index lies in \<open>[0, N)\<close>, the result is \<open>us\<close> together with the faces whose indices are
  replaced by the new indices.
\<close>

theorem weld_vertices_first_seen:
  assumes "i < length vs"
    and "ks = fst (welded tol (take i vs))"
    and "us = fst (welded tol vs)"
    and "m = snd (welded tol vs)"
  shows "take (length ks) us = ks \<and>
    ((\<exists>u\<in>set ks. allclose (vs ! i) u tol) \<longrightarrow>
       (\<exists>j<length ks. m (int i) = Some j \<and> allclose (vs ! i) (ks ! j) tol \<and>
          (\<forall>k<j. \<not> allclose (vs ! i) (ks ! k) tol))) \<and>
    ((\<forall>u\<in>set ks. \<not> allclose (vs ! i) u tol) \<longrightarrow>
       m (int i) = Some (length ks) \<and> us ! length ks = vs ! i) \<and>
    (list_all (in_range (length vs)) fs \<longrightarrow>
       remove_duplicate_vertices vs fs tol = (us, map (remapped m) fs))"
proof -
  obtain mk where pre: "welded tol (take i vs) = (ks, mk)"
    using assms(2) by (cases "welded tol (take i vs)") simp
  let ?rest = "drop (Suc i) vs"
  have split: "welded tol vs = weld_loop tol (vs ! i # ?rest) i ks mk"
    using welded_split [OF assms(1), of tol] pre by simp
  have faces: "list_all (in_range (length vs)) fs \<longrightarrow>
       remove_duplicate_vertices vs fs tol = (us, map (remapped m) fs)"
  proof
    assume "list_all (in_range (length vs)) fs"
    moreover have "\<forall>k<length vs. \<exists>j. m (int k) = Some j"
      using welded_total [of vs tol] assms(4) by blast
    ultimately have "remap_faces m fs = Inr (map (remapped m) fs)"
      using remap_faces_in_range by blast
    then show "remove_duplicate_vertices vs fs tol = (us, map (remapped m) fs)"
      using assms(3,4) by (auto simp: remove_duplicate_vertices_def welded_def split: prod.splits)
  qed
  show ?thesis
  proof (cases "find_close tol (vs ! i) ks 0")
    case None
    then have none: "\<forall>u\<in>set ks. \<not> allclose (vs ! i) u tol" by (simp add: find_close_None)
    have w: "welded tol vs = weld_loop tol ?rest (Suc i) (ks @ [vs ! i]) (mk(int i \<mapsto> length ks))"
      unfolding split by (rule weld_loop_step_None [OF None])
    obtain ext where ext: "us = (ks @ [vs ! i]) @ ext"
      using weld_loop_extends [of tol ?rest "Suc i" "ks @ [vs ! i]" "mk(int i \<mapsto> length ks)"]
        assms(3) w by auto
    have "m (int i) = (mk(int i \<mapsto> length ks)) (int i)"
      unfolding assms(4) w by (rule weld_loop_keeps_mapping) simp
    then have mi: "m (int i) = Some (length ks)" by simp
    from ext have "take (length ks) us = ks" and "us ! length ks = vs ! i"
      by (simp_all add: nth_append)
    with none mi faces show ?thesis by blast
  next
    case (Some j)
    from find_close_Some [OF Some]
    have j: "j < length ks" and cl: "allclose (vs ! i) (ks ! j) tol"
      and first: "\<forall>k<j. \<not> allclose (vs ! i) (ks ! k) tol" by simp_all
    have w: "welded tol vs = weld_loop tol ?rest (Suc i) ks (mk(int i \<mapsto> j))"
      unfolding split by (rule weld_loop_step_Some [OF Some])
    obtain ext where ext: "us = ks @ ext"
      using weld_loop_extends [of tol ?rest "Suc i" ks "mk(int i \<mapsto> j)"] assms(3) w by auto
    have "m (int i) = (mk(int i \<mapsto> j)) (int i)"
      unfolding assms(4) w by (rule weld_loop_keeps_mapping) simp
    then have mi: "m (int i) = Some j" by simp
    from ext have tk: "take (length ks) us = ks" by simp
    have "ks ! j \<in> set ks" using j by (rule nth_mem)
    with cl have some: "\<exists>u\<in>set ks. allclose (vs ! i) u tol" by blast
    from tk j cl first mi some faces show ?thesis by blast
  qed
qed


lemmas weld_defs = welded_def allclose_def isclose_def rtol_def default_tolerance_def

theorem weld_vertices_first_seen_witness:
  "fst (welded default_tolerance (take 2 [(0, 0, 0), (1, 0, 0), (0, 0, 0)])) = [(0, 0, 0), (1, 0, 0)] \<and>
   allclose ([(0, 0, 0), (1, 0, 0), (0, 0, 0)] ! 2) (0, 0, 0) default_tolerance \<and>
   snd (welded default_tolerance [(0, 0, 0), (1, 0, 0), (0, 0, 0)]) (int 2) = Some 0 \<and>
   fst (welded default_tolerance (take 1 [(0, 0, 0), (1, 0, 0), (0, 0, 0)])) = [(0, 0, 0)] \<and>
   \<not> allclose ([(0, 0, 0), (1, 0, 0), (0, 0, 0)] ! 1) (0, 0, 0) default_tolerance \<and>
   snd (welded default_tolerance [(0, 0, 0), (1, 0, 0), (0, 0, 0)]) (int 1) = Some 1 \<and>
   list_all (in_range (length [(0, 0, 0), (1, 0, 0), (0, 0, 0) :: vec3])) [(0, 1, 2)] \<and>
   remove_duplicate_vertices [(0, 0, 0), (1, 0, 0), (0, 0, 0)] [(0, 1, 2)] default_tolerance =
     ([(0, 0, 0), (1, 0, 0)], [(0, 1, 0)])"
proof -
  let ?vs = "[(0, 0, 0), (1, 0, 0), (0, 0, 0)] :: vec3 list"
  have k2: "fst (welded default_tolerance (take 2 ?vs)) = [(0, 0, 0), (1, 0, 0)]"
    by (simp add: weld_defs)
  have k1: "fst (welded default_tolerance (take 1 ?vs)) = [(0, 0, 0)]"
    by (simp add: weld_defs)
  have u: "fst (welded default_tolerance ?vs) = [(0, 0, 0), (1, 0, 0)]"
    by (simp add: weld_defs)
  have f: "map (remapped (snd (welded default_tolerance ?vs))) [(0, 1, 2)] = [(0, 1, 0)]"
    by (simp add: weld_defs remapped_def)
  have c2: "\<exists>u\<in>set [(0, 0, 0), (1, 0, 0)]. allclose (?vs ! 2) u default_tolerance"
    by (simp add: weld_defs)
  have c1: "\<forall>u\<in>set [(0, 0, 0)]. \<not> allclose (?vs ! 1) u default_tolerance"
    by (simp add: weld_defs)
  have r: "list_all (in_range (length ?vs)) [(0, 1, 2)]"
    by (simp add: in_range_def)
  have m2: "snd (welded default_tolerance ?vs) (int 2) = Some 0"
    by (simp add: weld_defs)
  show ?thesis
    using k2 k1 u f c2 c1 r m2
      weld_vertices_first_seen [of 2 ?vs "fst (welded default_tolerance (take 2 ?vs))"
        default_tolerance "fst (welded default_tolerance ?vs)"
        "snd (welded default_tolerance ?vs)" "[(0, 1, 2)]"]
      weld_vertices_first_seen [of 1 ?vs "fst (welded default_tolerance (take 1 ?vs))"
        default_tolerance "fst (welded default_tolerance ?vs)"
        "snd (welded default_tolerance ?vs)" "[(0, 1, 2)]"]
    by simp
qed

text \<open>
  The claim as stated fails on two vertices at distance \<open>0.005\<close>, far more than the tolerance
  \<open>1e-6\<close>: the relative term of \<open>np.allclose\<close> makes them close and they are merged.
\<close>

theorem weld_vertices_distance_counterexample:
  "\<not> within_tolerance (1000005 / 1000, 0, 0) (1000, 0, 0) default_tolerance \<and>
   list_all (in_range 2) [(0, 1, 1)] \<and>
   remove_duplicate_vertices [(1000, 0, 0), (1000005 / 1000, 0, 0)] [(0, 1, 1)] default_tolerance =
     ([(1000, 0, 0)], [(0, 0, 0)])"
  by (simp add: within_tolerance_def in_range_def remove_duplicate_vertices_def weld_defs
      remap_face_def lookup_def)



end
